theory Spec2Isabelle
  imports Main "HOL-Library.Sublist"
begin

section \<open>The bibliography manager of the panmirror editor\<close>

text \<open>
  A shallow embedding of \<^verbatim>\<open>api/bibliography/bibliography.ts\<close>: the class
  \<^verbatim>\<open>BibliographyManager\<close>, which gathers the sources of its providers, removes
  duplicate ids, and answers list and fuzzy-search queries.

  The manager object is a record that every method receives; methods that assign fields
  return the updated record. Optional fields and optional arguments
  (\<^verbatim>\<open>T | undefined\<close>) are \<open>T option\<close>, with \<open>None\<close> for \<^verbatim>\<open>undefined\<close>.
\<close>

subsection \<open>Data\<close>

text \<open>
  Modelled from the spec: the interface \<^verbatim>\<open>CSL\<close> is declared in \<^verbatim>\<open>api/csl.ts\<close>,
  which is not among the sources at hand. The specification describes it as structured
  bibliographic metadata with an open schema (any key and value); the model keeps it as
  an association list from property names to values.
\<close>

type_synonym CSL = "(string \<times> string) list"

record BibliographyFile =
  displayPath :: string
  fullPath :: string
  isProject :: bool
  writable :: bool

text \<open>
  \<^verbatim>\<open>BibliographySource extends CSL\<close>: the three declared properties are fields (the
  property \<^verbatim>\<open>id\<close> is named \<open>id_of\<close> here, since \<open>id\<close> is the identity function of
  HOL), and the remaining properties of the object are the association list \<open>csl\<close>.
\<close>

record BibliographySource =
  id_of :: string
  providerKey :: string
  collectionKeys :: "string list"
  csl :: CSL

text \<open>
  Reading a property that the interface does not declare, as \<^verbatim>\<open>item.provider\<close> does
  on a value typed \<^verbatim>\<open>any\<close>, yields the value stored under that name or
  \<^verbatim>\<open>undefined\<close>.
\<close>

definition property_of :: "BibliographySource \<Rightarrow> string \<Rightarrow> string option" where
  "property_of item nm = map_of (csl item) nm"

text \<open>
  A promise is modelled by its outcome. A promise is an object, and every object is truthy
  in a condition, whatever the promise settles to.
\<close>

datatype 'a promise = Resolved 'a | Rejected string

definition truthy_promise :: "'a promise \<Rightarrow> bool" where
  "truthy_promise p = True"

text \<open>
  Truthiness of a value of type \<^verbatim>\<open>string | undefined\<close>: \<^verbatim>\<open>undefined\<close> and the
  empty string are falsy. The result is the string when the value is truthy.
\<close>

fun truthy :: "string option \<Rightarrow> string option" where
  "truthy None = None"
| "truthy (Some s) = (if s = [] then None else Some s)"

text \<open>
  A provider (\<^verbatim>\<open>BibliographyDataProvider\<close>). The two implementing classes are not
  among the sources at hand, so a provider is the record of what its synchronous methods
  return for the document being edited: \<open>items\<close> for \<^verbatim>\<open>items()\<close>,
  \<open>bibliographyPaths\<close> for \<^verbatim>\<open>bibliographyPaths(doc, ui)\<close>, \<open>warningMessage\<close> for
  \<^verbatim>\<open>warningMessage()\<close>, and \<open>provider_generateBibLaTeX\<close> for the promise that
  \<^verbatim>\<open>generateBibLaTeX(ui, id, csl)\<close> returns. The asynchronous \<^verbatim>\<open>load\<close> of a
  provider is a parameter of the manager's \<open>load\<close> below.
\<close>

record BibliographyDataProvider =
  key :: string
  name :: string
  items :: "BibliographySource list"
  bibliographyPaths :: "BibliographyFile list"
  provider_generateBibLaTeX :: "string \<Rightarrow> CSL \<Rightarrow> string option promise"
  warningMessage :: "string option"

text \<open>
  The fields and weights of the search index (\<^verbatim>\<open>kFields\<close>); a weight is written in
  thousandths.
\<close>

definition kFields :: "(string \<times> nat) list" where
  "kFields =
    [(''id'', 300), (''author.family'', 275), (''author.literal'', 275), (''title'', 100),
     (''author.given'', 25), (''issued'', 25), (''provider'', 0)]"

text \<open>
  The search index: \<^verbatim>\<open>new Fuse(bibSources, options, index)\<close> holds the list it was
  built from and the names of the indexed fields.
\<close>

record Fuse =
  fuse_docs :: "BibliographySource list"
  fuse_keys :: "string list"

record BibliographyManager =
  fuse :: "Fuse option"
  providers :: "BibliographyDataProvider list"
  sources :: "BibliographySource list option"
  writable :: "bool option"

datatype error = TypeError

subsection \<open>Library functions\<close>

text \<open>
  \<^verbatim>\<open>uniqby(array, iteratee)\<close> of lodash walks the array from the front and keeps an
  element when the value of the iteratee on it has not been seen before.
\<close>

fun uniqby_from :: "'k list \<Rightarrow> 'a list \<Rightarrow> ('a \<Rightarrow> 'k) \<Rightarrow> 'a list" where
  "uniqby_from seen [] f = []"
| "uniqby_from seen (x # xs) f =
     (if f x \<in> set seen then uniqby_from seen xs f
      else x # uniqby_from (f x # seen) xs f)"

definition uniqby :: "'a list \<Rightarrow> ('a \<Rightarrow> 'k) \<Rightarrow> 'a list" where
  "uniqby xs f = uniqby_from [] xs f"

text \<open>
  \<^verbatim>\<open>fuse.search(query, options)\<close> of Fuse.js scores every indexed document against the
  query, sorts the matching ones by relevance and, for a numeric \<^verbatim>\<open>limit\<close>, returns
  the first \<^verbatim>\<open>limit\<close> of them. The scoring is the library's and is a parameter here:
  \<open>rank query docs\<close> is the list of all matching documents, the most relevant first.
\<close>

definition fuse_search ::
  "(string \<Rightarrow> BibliographySource list \<Rightarrow> BibliographySource list) \<Rightarrow>
   Fuse \<Rightarrow> string \<Rightarrow> nat \<Rightarrow> BibliographySource list" where
  "fuse_search rank fz query limit = take limit (rank query (fuse_docs fz))"

text \<open>
  \<^verbatim>\<open>array.reduce((prev, curr) => prev || curr)\<close> without an initial value: the first
  element starts the accumulation, and an empty array throws a \<^verbatim>\<open>TypeError\<close>.
\<close>

fun reduce_or :: "bool list \<Rightarrow> error + bool" where
  "reduce_or [] = Inl TypeError"
| "reduce_or (b # bs) = Inr (foldl (\<or>) b bs)"

subsection \<open>The manager\<close>

text \<open>
  The constructor registers the local provider first and the Zotero provider second; the
  other fields start out undefined.
\<close>

definition new_BibliographyManager ::
  "BibliographyDataProvider \<Rightarrow> BibliographyDataProvider \<Rightarrow> BibliographyManager" where
  "new_BibliographyManager localProvider zoteroProvider =
     \<lparr>fuse = None, providers = [localProvider, zoteroProvider], sources = None,
      writable = None\<rparr>"

definition isWritable :: "BibliographyManager \<Rightarrow> bool" where
  "isWritable m = (case writable m of Some b \<Rightarrow> b | None \<Rightarrow> False)"

definition bibliographyFiles :: "BibliographyManager \<Rightarrow> BibliographyFile list" where
  "bibliographyFiles m = concat (map bibliographyPaths (providers m))"

definition shouldAllowWrites :: "BibliographyManager \<Rightarrow> bool" where
  "shouldAllowWrites m =
     (let files = bibliographyFiles m
      in if length files = 0 then True
         else length (filter BibliographyFile.writable files) > 0)"

definition writableBibliographyFiles :: "BibliographyManager \<Rightarrow> BibliographyFile list" where
  "writableBibliographyFiles m = filter BibliographyFile.writable (bibliographyFiles m)"

definition updateIndex :: "BibliographyManager \<Rightarrow> BibliographySource list \<Rightarrow> BibliographyManager" where
  "updateIndex m bibSources = m\<lparr>fuse := Some \<lparr>fuse_docs = bibSources, fuse_keys = map fst kFields\<rparr>\<rparr>"

text \<open>
  \<^verbatim>\<open>load(ui, doc)\<close>. The parameter \<open>pload\<close> stands for \<^verbatim>\<open>provider.load\<close> on the
  current document: for a provider it gives the flag the promise resolves to and the
  provider as it is once loaded. A provider's load touches that provider only, so the
  loads that \<^verbatim>\<open>Promise.all\<close> awaits are a \<open>map\<close> over the provider list.
\<close>

definition load ::
  "(BibliographyDataProvider \<Rightarrow> bool \<times> BibliographyDataProvider) \<Rightarrow>
   BibliographyManager \<Rightarrow> error + BibliographyManager" where
  "load pload m =
     (let loaded = map pload (providers m);
          providersNeedUpdate = map fst loaded;
          m1 = m\<lparr>providers := map snd loaded\<rparr>;
          m2 = m1\<lparr>writable := Some (shouldAllowWrites m1)\<rparr>
      in case reduce_or providersNeedUpdate of
           Inl e \<Rightarrow> Inl e
         | Inr needsIndexUpdate \<Rightarrow>
             if needsIndexUpdate then
               (let providersEntries = map items (providers m2);
                    m3 = m2\<lparr>sources := Some (concat providersEntries)\<rparr>
                in Inr (updateIndex m3 (concat providersEntries)))
             else Inr m2)"

text \<open>
  The constant \<^verbatim>\<open>kLocalBiliographyProviderKey\<close> is imported from the local provider's
  module; its value is the parameter \<open>kLocal\<close> of the functions that use it.
\<close>

definition allSources :: "string \<Rightarrow> BibliographyManager \<Rightarrow> BibliographySource list" where
  "allSources kLocal m =
     (case sources m of
        Some srcs \<Rightarrow>
          if isWritable m then uniqby srcs id_of
          else uniqby (filter (\<lambda>source. providerKey source = kLocal) srcs) id_of
      | None \<Rightarrow> uniqby [] id_of)"

definition hasSources :: "string \<Rightarrow> BibliographyManager \<Rightarrow> bool" where
  "hasSources kLocal m = (length (allSources kLocal m) > 0)"

definition sourcesForProvider ::
  "string \<Rightarrow> BibliographyManager \<Rightarrow> string \<Rightarrow> BibliographySource list" where
  "sourcesForProvider kLocal m pkey =
     uniqby (filter (\<lambda>item. providerKey item = pkey) (allSources kLocal m)) id_of"

definition sourcesForProviderCollection ::
  "string \<Rightarrow> BibliographyManager \<Rightarrow> string \<Rightarrow> string \<Rightarrow> BibliographySource list" where
  "sourcesForProviderCollection kLocal m provider collectionKey =
     uniqby (filter (\<lambda>item. collectionKey \<in> set (collectionKeys item))
               (sourcesForProvider kLocal m provider)) id_of"

definition localSources :: "string \<Rightarrow> BibliographyManager \<Rightarrow> BibliographySource list" where
  "localSources kLocal m = filter (\<lambda>source. providerKey source = kLocal) (allSources kLocal m)"

definition localProviders :: "BibliographyManager \<Rightarrow> BibliographyDataProvider list" where
  "localProviders m = providers m"

definition providerName :: "BibliographyManager \<Rightarrow> string \<Rightarrow> string option" where
  "providerName m pkey = map_option name (find (\<lambda>prov. key prov = pkey) (providers m))"

text \<open>
  \<^verbatim>\<open>generateBibLaTeX(ui, id, csl, provider?)\<close>. The converter \<^verbatim>\<open>toBibLaTeX\<close> comes
  from \<^verbatim>\<open>bibDB.ts\<close> and is a parameter. A provider key is a string, so it never
  equals an undefined \<^verbatim>\<open>provider\<close> argument. The condition on
  \<^verbatim>\<open>dataProviderBibLaTeX\<close> tests the promise that the provider returned, not the value
  it resolves to.
\<close>

definition generateBibLaTeX ::
  "(string \<Rightarrow> CSL \<Rightarrow> string option) \<Rightarrow> BibliographyManager \<Rightarrow> string \<Rightarrow> CSL \<Rightarrow>
   string option \<Rightarrow> string option promise" where
  "generateBibLaTeX toBibLaTeX m ident c provider =
     (case find (\<lambda>prov. Some (key prov) = provider) (providers m) of
        Some dataProvider \<Rightarrow>
          (let dataProviderBibLaTeX = provider_generateBibLaTeX dataProvider ident c
           in if truthy_promise dataProviderBibLaTeX then dataProviderBibLaTeX
              else Resolved (toBibLaTeX ident c))
      | None \<Rightarrow> Resolved (toBibLaTeX ident c))"

text \<open>
  \<^verbatim>\<open>searchAllSources(query, limit)\<close>. The filter of the non-writable case compares
  the property \<^verbatim>\<open>provider\<close> of each hit with the local provider's key.
\<close>

definition searchAllSources ::
  "string \<Rightarrow> (string \<Rightarrow> BibliographySource list \<Rightarrow> BibliographySource list) \<Rightarrow>
   BibliographyManager \<Rightarrow> string \<Rightarrow> nat \<Rightarrow> BibliographySource list" where
  "searchAllSources kLocal rank m query limit =
     (case fuse m of
        Some fz \<Rightarrow>
          (let results = fuse_search rank fz query limit;
               filteredItems =
                 (if isWritable m then results
                  else filter (\<lambda>item. property_of item ''provider'' = Some kLocal) results)
           in uniqby filteredItems id_of)
      | None \<Rightarrow> [])"

definition searchProvider ::
  "string \<Rightarrow> (string \<Rightarrow> BibliographySource list \<Rightarrow> BibliographySource list) \<Rightarrow>
   BibliographyManager \<Rightarrow> string \<Rightarrow> nat \<Rightarrow> string \<Rightarrow> BibliographySource list" where
  "searchProvider kLocal rank m query limit pkey =
     filter (\<lambda>item. providerKey item = pkey) (searchAllSources kLocal rank m query limit)"

definition searchProviderCollection ::
  "string \<Rightarrow> (string \<Rightarrow> BibliographySource list \<Rightarrow> BibliographySource list) \<Rightarrow>
   BibliographyManager \<Rightarrow> string \<Rightarrow> nat \<Rightarrow> string \<Rightarrow> string \<Rightarrow> BibliographySource list" where
  "searchProviderCollection kLocal rank m query limit pkey collectionKey =
     filter (\<lambda>item. collectionKey \<in> set (collectionKeys item))
       (searchProvider kLocal rank m query limit pkey)"

text \<open>
  \<^verbatim>\<open>search(query?, providerKey?, collectionKey?)\<close>: each argument is tested for
  truthiness, so an empty string counts as a missing argument.
\<close>

definition search ::
  "string \<Rightarrow> (string \<Rightarrow> BibliographySource list \<Rightarrow> BibliographySource list) \<Rightarrow>
   BibliographyManager \<Rightarrow> string option \<Rightarrow> string option \<Rightarrow> string option \<Rightarrow>
   BibliographySource list" where
  "search kLocal rank m query pkey collectionKey =
     (let limit = 1000
      in case truthy query of
           Some q \<Rightarrow>
             (case truthy pkey of
                Some p \<Rightarrow>
                  (case truthy collectionKey of
                     Some c \<Rightarrow> searchProviderCollection kLocal rank m q limit p c
                   | None \<Rightarrow> searchProvider kLocal rank m q limit p)
              | None \<Rightarrow> searchAllSources kLocal rank m q limit)
         | None \<Rightarrow>
             (case truthy pkey of
                Some p \<Rightarrow>
                  (case truthy collectionKey of
                     Some c \<Rightarrow> sourcesForProviderCollection kLocal m p c
                   | None \<Rightarrow> sourcesForProvider kLocal m p)
              | None \<Rightarrow> allSources kLocal m))"

subsection \<open>Example states\<close>

text \<open>
  The values below are used to run the model on concrete inputs. The local provider's key
  is \<open>''bibliography''\<close> in them and the Zotero provider's key is \<open>''zotero''\<close>.
\<close>

definition mk_source :: "string \<Rightarrow> string \<Rightarrow> BibliographySource" where
  "mk_source ident pkey = \<lparr>id_of = ident, providerKey = pkey, collectionKeys = [], csl = []\<rparr>"

definition mk_source_in :: "string \<Rightarrow> string \<Rightarrow> string list \<Rightarrow> BibliographySource" where
  "mk_source_in ident pkey colls =
     \<lparr>id_of = ident, providerKey = pkey, collectionKeys = colls, csl = []\<rparr>"

definition mk_provider ::
  "string \<Rightarrow> BibliographySource list \<Rightarrow> BibliographyFile list \<Rightarrow> BibliographyDataProvider" where
  "mk_provider k its files =
     \<lparr>key = k, name = k, items = its, bibliographyPaths = files,
      provider_generateBibLaTeX = (\<lambda>ident c. Resolved None), warningMessage = None\<rparr>"

definition mk_loaded ::
  "BibliographyDataProvider list \<Rightarrow> BibliographySource list \<Rightarrow> bool \<Rightarrow> BibliographyManager" where
  "mk_loaded ps srcs w =
     \<lparr>fuse = Some \<lparr>fuse_docs = srcs, fuse_keys = map fst kFields\<rparr>, providers = ps,
      sources = Some srcs, writable = Some w\<rparr>"

text \<open>A provider load that reports a change, and one that reports none.\<close>

definition pload_changed :: "BibliographyDataProvider \<Rightarrow> bool \<times> BibliographyDataProvider" where
  "pload_changed p = (True, p)"

definition pload_unchanged :: "BibliographyDataProvider \<Rightarrow> bool \<times> BibliographyDataProvider" where
  "pload_unchanged p = (False, p)"

text \<open>
  A provider load that reports a change and leaves the provider with one more item, the
  source \<open>d1\<close>.
\<close>

definition pload_grow :: "BibliographyDataProvider \<Rightarrow> bool \<times> BibliographyDataProvider" where
  "pload_grow p = (True, p\<lparr>items := items p @ [mk_source ''d1'' (key p)]\<rparr>)"

text \<open>A ranking under which every indexed source matches every query, in index order.\<close>

definition rank_all :: "string \<Rightarrow> BibliographySource list \<Rightarrow> BibliographySource list" where
  "rank_all query docs = docs"

text \<open>
  A ranking under which the sources whose id contains the query match, in index order.
\<close>

definition rank_contains :: "string \<Rightarrow> BibliographySource list \<Rightarrow> BibliographySource list" where
  "rank_contains query docs = filter (\<lambda>d. sublist query (id_of d)) docs"

definition toBibLaTeX_ex :: "string \<Rightarrow> CSL \<Rightarrow> string option" where
  "toBibLaTeX_ex ident c = Some (''entry '' @ ident)"

definition ex_readonly_file :: BibliographyFile where
  "ex_readonly_file =
     \<lparr>displayPath = ''refs.bib'', fullPath = ''/doc/refs.bib'', isProject = False,
      writable = False\<rparr>"

definition ex_local :: BibliographyDataProvider where
  "ex_local =
     mk_provider ''bibliography''
       [mk_source ''a1'' ''bibliography'', mk_source ''b1'' ''bibliography''] []"

definition ex_local_readonly :: BibliographyDataProvider where
  "ex_local_readonly =
     mk_provider ''bibliography''
       [mk_source ''a1'' ''bibliography'', mk_source ''b1'' ''bibliography''] [ex_readonly_file]"

definition ex_zotero :: BibliographyDataProvider where
  "ex_zotero = mk_provider ''zotero'' [mk_source ''a1'' ''zotero'', mk_source ''c1'' ''zotero''] []"

definition ex_sources :: "BibliographySource list" where
  "ex_sources =
     [mk_source ''a1'' ''bibliography'', mk_source ''b1'' ''bibliography'',
      mk_source ''a1'' ''zotero'', mk_source ''c1'' ''zotero'']"

text \<open>
  A Zotero library in which one source belongs to the collection \<open>c9\<close>.
\<close>

definition ex_zotero_coll :: BibliographyDataProvider where
  "ex_zotero_coll =
     mk_provider ''zotero''
       [mk_source_in ''c1'' ''zotero'' [''c9''], mk_source ''d1'' ''zotero''] []"

definition ex_coll_sources :: "BibliographySource list" where
  "ex_coll_sources =
     [mk_source ''a1'' ''bibliography'', mk_source ''b1'' ''bibliography'',
      mk_source_in ''c1'' ''zotero'' [''c9''], mk_source ''d1'' ''zotero'']"

text \<open>
  A large Zotero library: \<open>zotero_extra n\<close> holds \<open>n\<close> sources with the ids \<open>z\<close>, \<open>zz\<close>,
  \<open>zzz\<close> and so on. In the large example the local bibliography holds one source, which
  has the id \<open>z\<close> as well, and the Zotero library holds 1001 sources; the id of every
  source contains the query \<open>z\<close>.
\<close>

definition zotero_extra :: "nat \<Rightarrow> BibliographySource list" where
  "zotero_extra n = map (\<lambda>i. mk_source (replicate (Suc i) CHR ''z'') ''zotero'') [0..<n]"

definition ex_local_z :: BibliographyDataProvider where
  "ex_local_z = mk_provider ''bibliography'' [mk_source ''z'' ''bibliography''] []"

definition ex_zotero_big :: BibliographyDataProvider where
  "ex_zotero_big = mk_provider ''zotero'' (zotero_extra 1001) []"

definition ex_big_sources :: "BibliographySource list" where
  "ex_big_sources = mk_source ''z'' ''bibliography'' # zotero_extra 1001"

text \<open>
  The manager after a load of each pair of example providers: a bibliography with no
  file yet, one with a read-only file, one with a Zotero collection, the large library,
  and a Zotero library of 1001 sources with distinct ids beside an empty local
  bibliography. The last state is \<open>ex_loaded\<close> after a further load in which every
  provider gained the source \<open>d1\<close>.
\<close>

definition ex_loaded :: BibliographyManager where
  "ex_loaded = mk_loaded [ex_local, ex_zotero] ex_sources True"

definition ex_readonly :: BibliographyManager where
  "ex_readonly = mk_loaded [ex_local_readonly, ex_zotero] ex_sources False"

definition ex_coll :: BibliographyManager where
  "ex_coll = mk_loaded [ex_local, ex_zotero_coll] ex_coll_sources True"

definition ex_big :: BibliographyManager where
  "ex_big = mk_loaded [ex_local_z, ex_zotero_big] ex_big_sources True"

definition ex_wide :: BibliographyManager where
  "ex_wide =
     mk_loaded [mk_provider ''bibliography'' [] [], mk_provider ''zotero'' (zotero_extra 1001) []]
       (zotero_extra 1001) True"

definition ex_reloaded :: BibliographyManager where
  "ex_reloaded =
     mk_loaded [snd (pload_grow ex_local), snd (pload_grow ex_zotero)]
       [mk_source ''a1'' ''bibliography'', mk_source ''b1'' ''bibliography'',
        mk_source ''d1'' ''bibliography'', mk_source ''a1'' ''zotero'',
        mk_source ''c1'' ''zotero'', mk_source ''d1'' ''zotero''] True"

section \<open>Properties\<close>

subsection \<open>Deduplication\<close>

lemma uniqby_from_subseq: "subseq (uniqby_from seen xs f) xs"
  by (induction xs arbitrary: seen) auto

lemma uniqby_from_keys: "f ` set (uniqby_from seen xs f) = f ` set xs - set seen"
  by (induction xs arbitrary: seen) auto

lemma uniqby_from_distinct: "distinct (map f (uniqby_from seen xs f))"
  by (induction xs arbitrary: seen) (auto simp: uniqby_from_keys)

lemma uniqby_from_first:
  "x \<in> set (uniqby_from seen xs f) \<Longrightarrow> find (\<lambda>y. f y = f x) xs = Some x"
proof (induction xs arbitrary: seen)
  case Nil
  then show ?case by simp
next
  case (Cons a xs)
  show ?case
  proof (cases "f a = f x")
    case True
    have "f x \<notin> f ` set (uniqby_from (f a # seen) xs f)"
      using True by (simp add: uniqby_from_keys)
    then have "x \<notin> set (uniqby_from (f a # seen) xs f)" by blast
    moreover have "f x \<notin> set seen"
      using Cons.prems uniqby_from_keys[of f seen "a # xs"] by blast
    ultimately show ?thesis using Cons.prems True by (auto split: if_splits)
  next
    case False
    then show ?thesis using Cons by (auto split: if_splits)
  qed
qed

lemma uniqby_from_length: "length (uniqby_from seen xs f) \<le> length xs"
  by (induction xs arbitrary: seen) (auto simp: le_SucI)

lemma uniqby_from_id:
  "distinct (map f xs) \<Longrightarrow> f ` set xs \<inter> set seen = {} \<Longrightarrow> uniqby_from seen xs f = xs"
  by (induction xs arbitrary: seen) auto

lemma uniqby_from_shorter:
  "\<not> (distinct (map f xs) \<and> f ` set xs \<inter> set seen = {}) \<Longrightarrow>
   length (uniqby_from seen xs f) < length xs"
proof (induction xs arbitrary: seen)
  case Nil
  then show ?case by simp
next
  case (Cons a xs)
  show ?case
  proof (cases "f a \<in> set seen")
    case True
    then show ?thesis using uniqby_from_length[of seen xs f] by (simp add: less_Suc_eq_le)
  next
    case False
    then have "\<not> (distinct (map f xs) \<and> f ` set xs \<inter> set (f a # seen) = {})"
      using Cons.prems by auto
    then show ?thesis using Cons.IH False by simp
  qed
qed

lemma uniqby_Nil: "uniqby [] f = []"
  by (simp add: uniqby_def)

lemma uniqby_subseq: "subseq (uniqby xs f) xs"
  by (simp add: uniqby_def uniqby_from_subseq)

lemma uniqby_keys: "f ` set (uniqby xs f) = f ` set xs"
  by (simp add: uniqby_def uniqby_from_keys)

lemma uniqby_distinct: "distinct (map f (uniqby xs f))"
  by (simp add: uniqby_def uniqby_from_distinct)

lemma uniqby_first: "x \<in> set (uniqby xs f) \<Longrightarrow> find (\<lambda>y. f y = f x) xs = Some x"
  unfolding uniqby_def by (rule uniqby_from_first)

lemma uniqby_length: "length (uniqby xs f) \<le> length xs"
  by (simp add: uniqby_def uniqby_from_length)

lemma uniqby_distinct_id: "distinct (map f xs) \<Longrightarrow> uniqby xs f = xs"
  unfolding uniqby_def by (rule uniqby_from_id) simp_all

lemma uniqby_shorter: "\<not> distinct (map f xs) \<Longrightarrow> length (uniqby xs f) < length xs"
  unfolding uniqby_def by (rule uniqby_from_shorter) simp

subsection \<open>Loading\<close>

lemma reduce_or_Inr: "bs \<noteq> [] \<Longrightarrow> reduce_or bs = Inr (\<exists>b\<in>set bs. b)"
proof (cases bs)
  case Nil
  assume "bs \<noteq> []"
  with Nil show ?thesis by simp
next
  case (Cons b bs')
  have "foldl (\<or>) a cs = (a \<or> (\<exists>c\<in>set cs. c))" for a cs
    by (induction cs arbitrary: a) auto
  with Cons show ?thesis by auto
qed

lemma load_unchanged:
  assumes "providers m \<noteq> []" "\<forall>p\<in>set (providers m). \<not> fst (pload p)"
  shows "load pload m =
           Inr (m\<lparr>providers := map (\<lambda>p. snd (pload p)) (providers m),
                  writable := Some (shouldAllowWrites
                    (m\<lparr>providers := map (\<lambda>p. snd (pload p)) (providers m)\<rparr>))\<rparr>)"
proof -
  from assms have ne: "map fst (map pload (providers m)) \<noteq> []" by simp
  have "\<not> (\<exists>b\<in>set (map fst (map pload (providers m))). b)"
    using assms by force
  with reduce_or_Inr[OF ne] have "reduce_or (map fst (map pload (providers m))) = Inr False"
    by simp
  then show ?thesis by (simp add: load_def Let_def comp_def)
qed

lemma load_changed:
  assumes "\<exists>p\<in>set (providers m). fst (pload p)"
  shows "load pload m =
           Inr (m\<lparr>fuse := Some \<lparr>fuse_docs = concat (map (\<lambda>p. items (snd (pload p))) (providers m)),
                                 fuse_keys = map fst kFields\<rparr>,
                  providers := map (\<lambda>p. snd (pload p)) (providers m),
                  sources := Some (concat (map (\<lambda>p. items (snd (pload p))) (providers m))),
                  writable := Some (shouldAllowWrites
                    (m\<lparr>providers := map (\<lambda>p. snd (pload p)) (providers m)\<rparr>))\<rparr>)"
proof -
  from assms have ne: "map fst (map pload (providers m)) \<noteq> []" by auto
  have "(\<exists>b\<in>set (map fst (map pload (providers m))). b)"
    using assms by force
  with reduce_or_Inr[OF ne] have "reduce_or (map fst (map pload (providers m))) = Inr True"
    by simp
  then show ?thesis by (simp add: load_def Let_def comp_def updateIndex_def)
qed

lemma load_Inr_nonempty: "load pload m = Inr m' \<Longrightarrow> providers m \<noteq> []"
proof
  assume a: "load pload m = Inr m'" and e: "providers m = []"
  from e have "load pload m = Inl TypeError" by (simp add: load_def)
  with a show False by simp
qed

lemma load_Inr_providers:
  assumes "load pload m = Inr m'"
  shows "providers m' = map (\<lambda>p. snd (pload p)) (providers m)"
proof (cases "\<exists>p\<in>set (providers m). fst (pload p)")
  case True
  from load_changed[OF True] assms show ?thesis by simp
next
  case False
  with load_Inr_nonempty[OF assms] load_unchanged[of m pload] assms show ?thesis by simp
qed

lemma shouldAllowWrites_providers:
  "providers a = providers b \<Longrightarrow> shouldAllowWrites a = shouldAllowWrites b"
  by (simp add: shouldAllowWrites_def bibliographyFiles_def)

lemma load_Inr_writable:
  assumes "load pload m = Inr m'"
  shows "writable m' = Some (shouldAllowWrites m')"
proof -
  let ?m1 = "m\<lparr>providers := map (\<lambda>p. snd (pload p)) (providers m)\<rparr>"
  have p: "providers m' = providers ?m1"
    using assms by (simp add: load_Inr_providers)
  have w: "writable m' = Some (shouldAllowWrites ?m1)"
  proof (cases "\<exists>p\<in>set (providers m). fst (pload p)")
    case True
    from load_changed[OF True] assms show ?thesis by simp
  next
    case False
    with load_Inr_nonempty[OF assms] load_unchanged[of m pload] assms show ?thesis by simp
  qed
  from shouldAllowWrites_providers[OF p] w show ?thesis by simp
qed

lemma load_total: "providers m \<noteq> [] \<Longrightarrow> \<exists>m'. load pload m = Inr m'"
  by (cases "\<exists>p\<in>set (providers m). fst (pload p)") (simp_all add: load_changed load_unchanged)

lemma load_Inr_length_providers:
  "load pload m = Inr m' \<Longrightarrow> length (providers m') = length (providers m)"
  by (simp add: load_Inr_providers)

subsection \<open>Generating BibLaTeX\<close>

lemma generateBibLaTeX_found:
  "find (\<lambda>prov. Some (key prov) = provider) (providers m) = Some dataProvider \<Longrightarrow>
   generateBibLaTeX toBibLaTeX m ident c provider = provider_generateBibLaTeX dataProvider ident c"
  by (simp add: generateBibLaTeX_def truthy_promise_def)

lemma generateBibLaTeX_not_found:
  "find (\<lambda>prov. Some (key prov) = provider) (providers m) = None \<Longrightarrow>
   generateBibLaTeX toBibLaTeX m ident c provider = Resolved (toBibLaTeX ident c)"
  by (simp add: generateBibLaTeX_def)

subsection \<open>Searching\<close>

lemma searchAllSources_length: "length (searchAllSources kLocal rank m q limit) \<le> limit"
proof (cases "fuse m")
  case None
  then show ?thesis by (simp add: searchAllSources_def)
next
  case (Some fz)
  let ?hits = "fuse_search rank fz q limit"
  let ?kept = "if isWritable m then ?hits
               else filter (\<lambda>item. property_of item ''provider'' = Some kLocal) ?hits"
  have "length ?hits \<le> limit" by (simp add: fuse_search_def)
  moreover have "length ?kept \<le> length ?hits" by simp
  moreover have "length (uniqby ?kept id_of) \<le> length ?kept" by (rule uniqby_length)
  ultimately have "length (uniqby ?kept id_of) \<le> limit" by linarith
  then show ?thesis using Some by (simp add: searchAllSources_def Let_def)
qed

lemma searchProvider_length: "length (searchProvider kLocal rank m q limit p) \<le> limit"
proof -
  have "length (searchProvider kLocal rank m q limit p)
          \<le> length (searchAllSources kLocal rank m q limit)"
    by (simp add: searchProvider_def)
  with searchAllSources_length[of kLocal rank m q limit] show ?thesis by linarith
qed

lemma searchProviderCollection_length:
  "length (searchProviderCollection kLocal rank m q limit p c) \<le> limit"
proof -
  have "length (searchProviderCollection kLocal rank m q limit p c)
          \<le> length (searchProvider kLocal rank m q limit p)"
    by (simp add: searchProviderCollection_def)
  with searchProvider_length[of kLocal rank m q limit p] show ?thesis by linarith
qed

lemma searchAllSources_exact:
  assumes "fuse m = Some fz" "isWritable m"
    and "distinct (map id_of (take limit (rank q (fuse_docs fz))))"
  shows "searchAllSources kLocal rank m q limit = take limit (rank q (fuse_docs fz))"
  using assms by (simp add: searchAllSources_def fuse_search_def uniqby_distinct_id)

subsection \<open>The example states\<close>

lemma uniqby_length_card: "length (uniqby xs f) = card (f ` set xs)"
proof -
  have "card (set (map f (uniqby xs f))) = length (map f (uniqby xs f))"
    using uniqby_distinct[of f xs] by (rule distinct_card)
  moreover have "set (map f (uniqby xs f)) = f ` set xs"
    by (simp add: uniqby_keys)
  ultimately show ?thesis by simp
qed

lemma zotero_extra_ids:
  "map id_of (zotero_extra n) = map (\<lambda>i. replicate (Suc i) CHR ''z'') [0..<n]"
  by (simp add: zotero_extra_def mk_source_def comp_def)

lemma zotero_extra_distinct: "distinct (map id_of (zotero_extra n))"
proof -
  have "inj_on (\<lambda>i. replicate (Suc i) CHR ''z'') (set [0..<n])"
    by (rule inj_onI) (metis length_replicate nat.inject)
  then show ?thesis by (simp add: zotero_extra_ids distinct_map)
qed

lemma zotero_extra_length: "length (zotero_extra n) = n"
  by (simp add: zotero_extra_def)

lemma zotero_extra_card: "card (id_of ` set (zotero_extra n)) = n"
proof -
  have "card (set (map id_of (zotero_extra n))) = length (map id_of (zotero_extra n))"
    using zotero_extra_distinct[of n] by (rule distinct_card)
  then show ?thesis by (simp add: zotero_extra_length)
qed

lemma zotero_extra_has_z: "0 < n \<Longrightarrow> ''z'' \<in> id_of ` set (zotero_extra n)"
proof -
  assume "0 < n"
  then have "mk_source ''z'' ''zotero'' \<in> set (zotero_extra n)"
    unfolding zotero_extra_def by (simp add: image_iff) (rule bexI[where x = 0], simp_all)
  then have "id_of (mk_source ''z'' ''zotero'') \<in> id_of ` set (zotero_extra n)"
    by (rule imageI)
  then show ?thesis by (simp add: mk_source_def)
qed

lemma zotero_extra_take: "k \<le> n \<Longrightarrow> take k (zotero_extra n) = zotero_extra k"
  by (simp add: zotero_extra_def take_map)

lemma zotero_extra_contains_z: "d \<in> set (zotero_extra n) \<Longrightarrow> sublist ''z'' (id_of d)"
proof -
  assume "d \<in> set (zotero_extra n)"
  then obtain i where "id_of d = replicate (Suc i) CHR ''z''"
    by (auto simp: zotero_extra_def mk_source_def)
  then have "prefix ''z'' (id_of d)" by simp
  then show ?thesis by (rule prefix_imp_sublist)
qed

lemma ex_big_sources_length: "length ex_big_sources = 1002"
  by (simp add: ex_big_sources_def zotero_extra_length)

lemma ex_big_sources_all_match: "rank_contains ''z'' ex_big_sources = ex_big_sources"
proof -
  have "sublist ''z'' (id_of (mk_source ''z'' ''bibliography''))"
    by (simp add: mk_source_def)
  then have "\<forall>d\<in>set ex_big_sources. sublist ''z'' (id_of d)"
    using zotero_extra_contains_z[of _ 1001] by (simp add: ex_big_sources_def)
  then show ?thesis
    unfolding rank_contains_def by (simp only: filter_True)
qed

lemma ex_big_sources_ids: "length (uniqby ex_big_sources id_of) = 1001"
proof -
  have "id_of ` set ex_big_sources = insert ''z'' (id_of ` set (zotero_extra 1001))"
    by (simp add: ex_big_sources_def mk_source_def)
  also have "\<dots> = id_of ` set (zotero_extra 1001)"
    using zotero_extra_has_z[of 1001] by (simp add: insert_absorb)
  finally show ?thesis by (simp add: uniqby_length_card zotero_extra_card)
qed

lemma ex_big_sources_first_1000: "length (uniqby (take 1000 ex_big_sources) id_of) = 999"
proof -
  have t: "take 1000 ex_big_sources = mk_source ''z'' ''bibliography'' # zotero_extra 999"
    by (simp add: ex_big_sources_def zotero_extra_take)
  have "id_of ` set (take 1000 ex_big_sources) = insert ''z'' (id_of ` set (zotero_extra 999))"
    by (simp add: t mk_source_def)
  also have "\<dots> = id_of ` set (zotero_extra 999)"
    using zotero_extra_has_z[of 999] by (simp add: insert_absorb)
  finally show ?thesis by (simp add: uniqby_length_card zotero_extra_card)
qed

lemma load_ex_loaded:
  "load pload_changed (new_BibliographyManager ex_local ex_zotero) = Inr ex_loaded"
  by (simp add: load_def new_BibliographyManager_def ex_loaded_def mk_loaded_def
      mk_provider_def mk_source_def pload_changed_def ex_local_def ex_zotero_def ex_sources_def
      shouldAllowWrites_def bibliographyFiles_def updateIndex_def)

lemma load_ex_readonly:
  "load pload_changed (new_BibliographyManager ex_local_readonly ex_zotero) = Inr ex_readonly"
  by (simp add: load_def new_BibliographyManager_def ex_readonly_def mk_loaded_def
      mk_provider_def mk_source_def pload_changed_def ex_local_readonly_def ex_zotero_def
      ex_sources_def ex_readonly_file_def shouldAllowWrites_def bibliographyFiles_def
      updateIndex_def)

lemma load_ex_coll:
  "load pload_changed (new_BibliographyManager ex_local ex_zotero_coll) = Inr ex_coll"
  by (simp add: load_def new_BibliographyManager_def ex_coll_def mk_loaded_def
      mk_provider_def mk_source_def mk_source_in_def pload_changed_def ex_local_def
      ex_zotero_coll_def ex_coll_sources_def shouldAllowWrites_def bibliographyFiles_def
      updateIndex_def)

lemma load_ex_big:
  "load pload_changed (new_BibliographyManager ex_local_z ex_zotero_big) = Inr ex_big"
  by (simp add: load_def new_BibliographyManager_def ex_big_def mk_loaded_def
      mk_provider_def pload_changed_def ex_local_z_def ex_zotero_big_def ex_big_sources_def
      shouldAllowWrites_def bibliographyFiles_def updateIndex_def)

lemma load_ex_reloaded: "load pload_grow ex_loaded = Inr ex_reloaded"
  by (simp add: load_def ex_loaded_def ex_reloaded_def mk_loaded_def mk_provider_def
      mk_source_def pload_grow_def ex_local_def ex_zotero_def ex_sources_def
      shouldAllowWrites_def bibliographyFiles_def updateIndex_def)

lemma allSources_ex_loaded:
  "allSources ''bibliography'' ex_loaded =
     [mk_source ''a1'' ''bibliography'', mk_source ''b1'' ''bibliography'',
      mk_source ''c1'' ''zotero'']"
  by (simp add: allSources_def isWritable_def uniqby_def ex_loaded_def mk_loaded_def
      ex_sources_def mk_source_def)

lemma allSources_ex_readonly:
  "allSources ''bibliography'' ex_readonly =
     [mk_source ''a1'' ''bibliography'', mk_source ''b1'' ''bibliography'']"
  by (simp add: allSources_def isWritable_def uniqby_def ex_readonly_def mk_loaded_def
      ex_sources_def mk_source_def)

lemma allSources_ex_reloaded:
  "allSources ''bibliography'' ex_reloaded =
     [mk_source ''a1'' ''bibliography'', mk_source ''b1'' ''bibliography'',
      mk_source ''d1'' ''bibliography'', mk_source ''c1'' ''zotero'']"
  by (simp add: allSources_def isWritable_def uniqby_def ex_reloaded_def mk_loaded_def
      mk_source_def)

lemma allSources_ex_coll:
  "allSources ''bibliography'' ex_coll =
     [mk_source ''a1'' ''bibliography'', mk_source ''b1'' ''bibliography'',
      mk_source_in ''c1'' ''zotero'' [''c9''], mk_source ''d1'' ''zotero'']"
  by (simp add: allSources_def isWritable_def uniqby_def ex_coll_def mk_loaded_def
      ex_coll_sources_def mk_source_def mk_source_in_def)

lemma sourcesForProvider_ex_coll_zotero:
  "sourcesForProvider ''bibliography'' ex_coll ''zotero'' =
     [mk_source_in ''c1'' ''zotero'' [''c9''], mk_source ''d1'' ''zotero'']"
  by (simp add: sourcesForProvider_def allSources_ex_coll uniqby_def mk_source_def
      mk_source_in_def)

lemma sourcesForProvider_ex_coll_empty_key:
  "sourcesForProvider ''bibliography'' ex_coll [] = []"
  by (simp add: sourcesForProvider_def allSources_ex_coll uniqby_def mk_source_def
      mk_source_in_def)

lemma sourcesForProviderCollection_ex_coll_c9:
  "sourcesForProviderCollection ''bibliography'' ex_coll ''zotero'' ''c9'' =
     [mk_source_in ''c1'' ''zotero'' [''c9'']]"
  by (simp add: sourcesForProviderCollection_def sourcesForProvider_ex_coll_zotero uniqby_def
      mk_source_def mk_source_in_def)

lemma sourcesForProviderCollection_ex_coll_empty_key:
  "sourcesForProviderCollection ''bibliography'' ex_coll ''zotero'' [] = []"
  by (simp add: sourcesForProviderCollection_def sourcesForProvider_ex_coll_zotero uniqby_def
      mk_source_def mk_source_in_def)

section \<open>The claims\<close>

text \<open>
  Claim C1. Whatever the state of the manager, \<open>allSources\<close> is the aggregate source
  list (the empty list while \<open>sources\<close> is undefined), restricted to the sources of the
  local provider when the bibliography is not writable, and then deduplicated by id: its
  ids are distinct, they are the ids of the restricted list, the order of that list is
  kept, and each source returned is the first one of the restricted list with its id.
  Every load in which a provider reports a change, the first one and each later one,
  leaves as the aggregate the items of the providers in registration order; for the
  providers \<open>[l, z]\<close> these are the items of the local provider followed by those of the
  Zotero provider, so a local source wins over a Zotero source with the same id.
\<close>

theorem allSources_dedup_first_wins:
  "(let agg = (case sources m of Some srcs \<Rightarrow> srcs | None \<Rightarrow> []);
        visible = (if isWritable m then agg
                   else filter (\<lambda>source. providerKey source = kLocal) agg)
    in allSources kLocal m = uniqby visible id_of \<and>
       distinct (map id_of (allSources kLocal m)) \<and>
       id_of ` set (allSources kLocal m) = id_of ` set visible \<and>
       subseq (allSources kLocal m) visible \<and>
       (\<forall>s\<in>set (allSources kLocal m).
          find (\<lambda>t. id_of t = id_of s) visible = Some s)) \<and>
   (\<forall>m'. load pload m0 = Inr m' \<and> (\<exists>p\<in>set (providers m0). fst (pload p)) \<longrightarrow>
      sources m' = Some (concat (map items (providers m'))) \<and>
      (providers m0 = [l, z] \<longrightarrow>
         providers m' = [snd (pload l), snd (pload z)] \<and>
         sources m' = Some (items (snd (pload l)) @ items (snd (pload z)))))"
proof -
  let ?agg = "case sources m of Some srcs \<Rightarrow> srcs | None \<Rightarrow> []"
  let ?visible = "if isWritable m then ?agg
                  else filter (\<lambda>source. providerKey source = kLocal) ?agg"
  have eq: "allSources kLocal m = uniqby ?visible id_of"
    by (cases "sources m") (simp_all add: allSources_def)
  have first: "\<forall>s\<in>set (uniqby ?visible id_of).
                 find (\<lambda>t. id_of t = id_of s) ?visible = Some s"
    using uniqby_first[of _ ?visible id_of] by blast
  have a: "allSources kLocal m = uniqby ?visible id_of \<and>
       distinct (map id_of (allSources kLocal m)) \<and>
       id_of ` set (allSources kLocal m) = id_of ` set ?visible \<and>
       subseq (allSources kLocal m) ?visible \<and>
       (\<forall>s\<in>set (allSources kLocal m).
          find (\<lambda>t. id_of t = id_of s) ?visible = Some s)"
    unfolding eq using first
    by (intro conjI refl uniqby_distinct uniqby_keys uniqby_subseq)
  have b: "sources m' = Some (concat (map items (providers m'))) \<and>
      (providers m0 = [l, z] \<longrightarrow>
         providers m' = [snd (pload l), snd (pload z)] \<and>
         sources m' = Some (items (snd (pload l)) @ items (snd (pload z))))"
    if h: "load pload m0 = Inr m' \<and> (\<exists>p\<in>set (providers m0). fst (pload p))"
    for m'
  proof -
    from h have c: "\<exists>p\<in>set (providers m0). fst (pload p)" by simp
    from h have p: "providers m' = map (\<lambda>p. snd (pload p)) (providers m0)"
      by (simp add: load_Inr_providers)
    from load_changed[OF c] h
    have s: "sources m' = Some (concat (map (\<lambda>p. items (snd (pload p))) (providers m0)))"
      by auto
    have "map items (providers m') = map (\<lambda>p. items (snd (pload p))) (providers m0)"
      by (simp add: p comp_def)
    with s have s': "sources m' = Some (concat (map items (providers m')))" by simp
    show ?thesis
    proof (intro conjI impI)
      show "sources m' = Some (concat (map items (providers m')))" by (rule s')
    next
      assume "providers m0 = [l, z]"
      then show "providers m' = [snd (pload l), snd (pload z)]" by (simp add: p)
    next
      assume "providers m0 = [l, z]"
      then show "sources m' = Some (items (snd (pload l)) @ items (snd (pload z)))"
        by (simp add: s)
    qed
  qed
  from a b show ?thesis unfolding Let_def by blast
qed

theorem allSources_dedup_first_wins_witness:
  "load pload_changed (new_BibliographyManager ex_local ex_zotero) = Inr ex_loaded \<and>
   fst (pload_changed ex_local) \<and>
   sources ex_loaded =
     Some [mk_source ''a1'' ''bibliography'', mk_source ''b1'' ''bibliography'',
           mk_source ''a1'' ''zotero'', mk_source ''c1'' ''zotero''] \<and>
   isWritable ex_loaded \<and>
   allSources ''bibliography'' ex_loaded =
     [mk_source ''a1'' ''bibliography'', mk_source ''b1'' ''bibliography'',
      mk_source ''c1'' ''zotero''] \<and>
   mk_source ''a1'' ''bibliography'' \<in> set (allSources ''bibliography'' ex_loaded) \<and>
   find (\<lambda>t. id_of t = ''a1'') (the (sources ex_loaded)) = Some (mk_source ''a1'' ''bibliography'') \<and>
   providers ex_loaded = [ex_local, ex_zotero] \<and>
   load pload_grow ex_loaded = Inr ex_reloaded \<and>
   fst (pload_grow ex_local) \<and>
   sources ex_reloaded =
     Some [mk_source ''a1'' ''bibliography'', mk_source ''b1'' ''bibliography'',
           mk_source ''d1'' ''bibliography'', mk_source ''a1'' ''zotero'',
           mk_source ''c1'' ''zotero'', mk_source ''d1'' ''zotero''] \<and>
   allSources ''bibliography'' ex_reloaded =
     [mk_source ''a1'' ''bibliography'', mk_source ''b1'' ''bibliography'',
      mk_source ''d1'' ''bibliography'', mk_source ''c1'' ''zotero'']"
proof -
  note t = allSources_dedup_first_wins
    [where m = ex_loaded and kLocal = "''bibliography''" and pload = pload_changed
       and m0 = "new_BibliographyManager ex_local ex_zotero" and l = ex_local and z = ex_zotero]
  note u = allSources_dedup_first_wins
    [where m = ex_reloaded and kLocal = "''bibliography''" and pload = pload_grow
       and m0 = ex_loaded and l = ex_local and z = ex_zotero]
  have l: "load pload_changed (new_BibliographyManager ex_local ex_zotero) = Inr ex_loaded"
    by (rule load_ex_loaded)
  have c: "fst (pload_changed ex_local)"
    by (simp add: pload_changed_def)
  have n: "providers (new_BibliographyManager ex_local ex_zotero) = [ex_local, ex_zotero]"
    by (simp add: new_BibliographyManager_def)
  from c n have c': "\<exists>p\<in>set (providers (new_BibliographyManager ex_local ex_zotero)).
      fst (pload_changed p)"
    by simp
  from t l c' n have "sources ex_loaded =
      Some (items (snd (pload_changed ex_local)) @ items (snd (pload_changed ex_zotero)))"
    by blast
  then have s: "sources ex_loaded =
     Some [mk_source ''a1'' ''bibliography'', mk_source ''b1'' ''bibliography'',
           mk_source ''a1'' ''zotero'', mk_source ''c1'' ''zotero'']"
    by (simp add: pload_changed_def ex_local_def ex_zotero_def mk_provider_def)
  have w: "isWritable ex_loaded"
    by (simp add: isWritable_def ex_loaded_def mk_loaded_def)
  have f: "find (\<lambda>t. id_of t = ''a1'') (the (sources ex_loaded)) =
             Some (mk_source ''a1'' ''bibliography'')"
    by (simp add: s mk_source_def)
  have i: "mk_source ''a1'' ''bibliography'' \<in> set (allSources ''bibliography'' ex_loaded)"
    by (simp add: allSources_ex_loaded)
  have p: "providers ex_loaded = [ex_local, ex_zotero]"
    by (simp add: ex_loaded_def mk_loaded_def)
  have r: "load pload_grow ex_loaded = Inr ex_reloaded"
    by (rule load_ex_reloaded)
  have g: "fst (pload_grow ex_local)"
    by (simp add: pload_grow_def)
  from g p have g': "\<exists>p\<in>set (providers ex_loaded). fst (pload_grow p)"
    by simp
  from u r g' p have "sources ex_reloaded =
      Some (items (snd (pload_grow ex_local)) @ items (snd (pload_grow ex_zotero)))"
    by blast
  then have s2: "sources ex_reloaded =
     Some [mk_source ''a1'' ''bibliography'', mk_source ''b1'' ''bibliography'',
           mk_source ''d1'' ''bibliography'', mk_source ''a1'' ''zotero'',
           mk_source ''c1'' ''zotero'', mk_source ''d1'' ''zotero'']"
    by (simp add: pload_grow_def ex_local_def ex_zotero_def mk_provider_def)
  from l c s w f i p r g s2 allSources_ex_loaded allSources_ex_reloaded
  show ?thesis by blast
qed

text \<open>
  Claim C2. The claim says that a provider whose generator resolves to undefined leads to
  the generic conversion. The method tests the promise the provider returned, which is an
  object and so always truthy, and returns that promise: with a registered Zotero provider
  whose generator resolves to undefined, the result resolves to undefined although the
  generic conversion yields an entry for the same arguments.
\<close>

theorem generateBibLaTeX_returns_provider_promise:
  "provider_generateBibLaTeX ex_zotero ''a1'' [] = Resolved None \<and>
   toBibLaTeX_ex ''a1'' [] = Some ''entry a1'' \<and>
   generateBibLaTeX toBibLaTeX_ex (new_BibliographyManager ex_local ex_zotero) ''a1'' []
     (Some ''zotero'') = Resolved None \<and>
   generateBibLaTeX toBibLaTeX_ex (new_BibliographyManager ex_local ex_zotero) ''a1'' []
     None = Resolved (Some ''entry a1'')"
  by (simp add: generateBibLaTeX_def new_BibliographyManager_def truthy_promise_def
      toBibLaTeX_ex_def ex_local_def ex_zotero_def mk_provider_def)

text \<open>
  Claim C3. The claim says that a fuzzy search on a bibliography that is not writable
  keeps the hits of the local provider. The method compares the property \<open>provider\<close> of a
  hit with the local key, where \<open>allSources\<close> compares \<open>providerKey\<close>; a source carries no
  property \<open>provider\<close>, so on the read-only example every hit is dropped, the local ones
  included, while \<open>allSources\<close> returns the two local sources.
\<close>

theorem searchAllSources_readonly_drops_local_hits:
  "load pload_changed (new_BibliographyManager ex_local_readonly ex_zotero) = Inr ex_readonly \<and>
   \<not> isWritable ex_readonly \<and>
   mk_source ''a1'' ''bibliography'' \<in> set (fuse_search rank_all (the (fuse ex_readonly)) ''a1'' 1000) \<and>
   searchAllSources ''bibliography'' rank_all ex_readonly ''a1'' 1000 = [] \<and>
   search ''bibliography'' rank_all ex_readonly (Some ''a1'') None None = [] \<and>
   allSources ''bibliography'' ex_readonly =
     [mk_source ''a1'' ''bibliography'', mk_source ''b1'' ''bibliography'']"
proof -
  have a: "\<not> isWritable ex_readonly"
    by (simp add: isWritable_def ex_readonly_def mk_loaded_def)
  have b: "mk_source ''a1'' ''bibliography'' \<in> set (fuse_search rank_all (the (fuse ex_readonly)) ''a1'' 1000)"
    by (simp add: fuse_search_def rank_all_def ex_readonly_def mk_loaded_def ex_sources_def)
  have c: "searchAllSources ''bibliography'' rank_all ex_readonly ''a1'' 1000 = []"
    by (simp add: searchAllSources_def fuse_search_def rank_all_def isWritable_def uniqby_def
        property_of_def ex_readonly_def mk_loaded_def ex_sources_def mk_source_def)
  have d: "search ''bibliography'' rank_all ex_readonly (Some ''a1'') None None = []"
    by (simp add: search_def c)
  from a b c d show ?thesis by (simp add: load_ex_readonly allSources_ex_readonly)
qed

text \<open>
  Claim C4, as amended. A fuzzy search issued through \<open>search\<close> (a non-empty query)
  returns at most 1000 sources. It returns exactly 1000 when more than 1000 sources match,
  no provider key is given, the bibliography is writable and the first 1000 hits have
  pairwise distinct ids. The limit is passed to the index, and the removal of duplicate
  ids and the provider and collection filters run on the 1000 hits that come back, so
  they can only shorten the result.
\<close>

theorem search_cap:
  assumes "truthy query = Some q"
  shows "length (search kLocal rank m query pkey ckey) \<le> 1000 \<and>
         (truthy pkey = None \<and> fuse m = Some fz \<and> isWritable m \<and>
          1000 < length (rank q (fuse_docs fz)) \<and>
          distinct (map id_of (take 1000 (rank q (fuse_docs fz)))) \<longrightarrow>
          length (search kLocal rank m query pkey ckey) = 1000)"
proof (intro conjI impI)
  show "length (search kLocal rank m query pkey ckey) \<le> 1000"
    using assms
    by (simp add: search_def searchAllSources_length searchProvider_length
        searchProviderCollection_length split: option.splits)
next
  assume h: "truthy pkey = None \<and> fuse m = Some fz \<and> isWritable m \<and>
          1000 < length (rank q (fuse_docs fz)) \<and>
          distinct (map id_of (take 1000 (rank q (fuse_docs fz))))"
  then have "search kLocal rank m query pkey ckey = take 1000 (rank q (fuse_docs fz))"
    using assms by (simp add: search_def searchAllSources_exact)
  with h show "length (search kLocal rank m query pkey ckey) = 1000" by simp
qed

theorem search_cap_witness:
  "truthy (Some ''z'') = Some ''z'' \<and> truthy None = None \<and>
   fuse ex_wide = Some \<lparr>fuse_docs = zotero_extra 1001, fuse_keys = map fst kFields\<rparr> \<and>
   isWritable ex_wide \<and>
   1000 < length (rank_all ''z'' (zotero_extra 1001)) \<and>
   distinct (map id_of (take 1000 (rank_all ''z'' (zotero_extra 1001)))) \<and>
   length (search ''bibliography'' rank_all ex_wide (Some ''z'') None None) = 1000"
proof -
  have q: "truthy (Some ''z'') = Some ''z''" by simp
  have p: "truthy None = None" by simp
  have f: "fuse ex_wide = Some \<lparr>fuse_docs = zotero_extra 1001, fuse_keys = map fst kFields\<rparr>"
    by (simp add: ex_wide_def mk_loaded_def)
  have w: "isWritable ex_wide"
    by (simp add: isWritable_def ex_wide_def mk_loaded_def)
  have n: "1000 < length (rank_all ''z'' (zotero_extra 1001))"
    by (simp add: rank_all_def zotero_extra_length)
  have "distinct (take 1000 (map id_of (zotero_extra 1001)))"
    using zotero_extra_distinct[of 1001] by (rule distinct_take)
  then have d: "distinct (map id_of (take 1000 (rank_all ''z'' (zotero_extra 1001))))"
    by (simp add: rank_all_def take_map)
  have "length (search ''bibliography'' rank_all ex_wide (Some ''z'') None None) = 1000"
    using search_cap[OF q, of "''bibliography''" rank_all ex_wide None None
        "\<lparr>fuse_docs = zotero_extra 1001, fuse_keys = map fst kFields\<rparr>"] p f w n d
    by simp
  with q p f w n d show ?thesis by blast
qed

text \<open>
  The claim C4 as stated fails. In the large example the id of each of the 1002 indexed
  sources contains the query \<open>z\<close>, so all of them match, and they have 1001 different
  ids. The first 1000 hits hold the id \<open>z\<close> twice, once from the local bibliography and
  once from Zotero, and the search returns 999 results.
\<close>

theorem search_cap_counterexample:
  "load pload_changed (new_BibliographyManager ex_local_z ex_zotero_big) = Inr ex_big \<and>
   fuse_docs (the (fuse ex_big)) = ex_big_sources \<and>
   rank_contains ''z'' ex_big_sources = ex_big_sources \<and>
   length (rank_contains ''z'' (fuse_docs (the (fuse ex_big)))) = 1002 \<and>
   length (allSources ''bibliography'' ex_big) = 1001 \<and>
   length (search ''bibliography'' rank_contains ex_big (Some ''z'') None None) = 999"
proof (intro conjI)
  show "load pload_changed (new_BibliographyManager ex_local_z ex_zotero_big) = Inr ex_big"
    by (rule load_ex_big)
  show d: "fuse_docs (the (fuse ex_big)) = ex_big_sources"
    by (simp add: ex_big_def mk_loaded_def)
  show "rank_contains ''z'' ex_big_sources = ex_big_sources"
    by (rule ex_big_sources_all_match)
  show "length (rank_contains ''z'' (fuse_docs (the (fuse ex_big)))) = 1002"
    by (simp only: d ex_big_sources_all_match ex_big_sources_length)
  show "length (allSources ''bibliography'' ex_big) = 1001"
    by (simp add: allSources_def isWritable_def ex_big_def mk_loaded_def ex_big_sources_ids)
  have "search ''bibliography'' rank_contains ex_big (Some ''z'') None None =
          uniqby (take 1000 (rank_contains ''z'' ex_big_sources)) id_of"
    by (simp add: search_def searchAllSources_def fuse_search_def isWritable_def ex_big_def
        mk_loaded_def)
  then show "length (search ''bibliography'' rank_contains ex_big (Some ''z'') None None) = 999"
    by (simp only: ex_big_sources_all_match ex_big_sources_first_1000)
qed

text \<open>
  Claim C5. When the manager has providers and none of them reports a change, \<open>load\<close>
  returns a manager whose aggregate source list and index are the ones it had before.
  Conversely, a load after which the source list or the index differs had a provider
  that reported a change. The constructor registers two providers and a load keeps
  their number, so the provider list of a manager is never empty.
\<close>

theorem load_unchanged_keeps_sources_and_index:
  "(providers m \<noteq> [] \<and> (\<forall>p\<in>set (providers m). \<not> fst (pload p)) \<longrightarrow>
      (\<exists>m'. load pload m = Inr m' \<and> sources m' = sources m \<and> fuse m' = fuse m)) \<and>
   (\<forall>m'. load pload m = Inr m' \<and> (sources m' \<noteq> sources m \<or> fuse m' \<noteq> fuse m) \<longrightarrow>
      (\<exists>p\<in>set (providers m). fst (pload p)))"
proof (intro conjI impI allI)
  assume a: "providers m \<noteq> [] \<and> (\<forall>p\<in>set (providers m). \<not> fst (pload p))"
  then show "\<exists>m'. load pload m = Inr m' \<and> sources m' = sources m \<and> fuse m' = fuse m"
    by (simp add: load_unchanged)
next
  fix m'
  assume b: "load pload m = Inr m' \<and> (sources m' \<noteq> sources m \<or> fuse m' \<noteq> fuse m)"
  show "\<exists>p\<in>set (providers m). fst (pload p)"
  proof (rule ccontr)
    assume n: "\<not> (\<exists>p\<in>set (providers m). fst (pload p))"
    have ne: "providers m \<noteq> []"
      using b load_Inr_nonempty by blast
    from n ne have "load pload m =
        Inr (m\<lparr>providers := map (\<lambda>p. snd (pload p)) (providers m),
               writable := Some (shouldAllowWrites
                 (m\<lparr>providers := map (\<lambda>p. snd (pload p)) (providers m)\<rparr>))\<rparr>)"
      by (simp add: load_unchanged)
    with b show False by auto
  qed
qed

theorem load_unchanged_keeps_sources_and_index_witness:
  "providers ex_loaded = [ex_local, ex_zotero] \<and>
   \<not> fst (pload_unchanged ex_local) \<and> \<not> fst (pload_unchanged ex_zotero) \<and>
   (\<exists>m'. load pload_unchanged ex_loaded = Inr m' \<and> sources m' = sources ex_loaded \<and>
      fuse m' = fuse ex_loaded) \<and>
   load pload_changed (new_BibliographyManager ex_local ex_zotero) = Inr ex_loaded \<and>
   sources ex_loaded \<noteq> sources (new_BibliographyManager ex_local ex_zotero) \<and>
   (\<exists>p\<in>set (providers (new_BibliographyManager ex_local ex_zotero)). fst (pload_changed p))"
proof -
  have a: "providers ex_loaded = [ex_local, ex_zotero]"
    by (simp add: ex_loaded_def mk_loaded_def)
  have b1: "\<not> fst (pload_unchanged ex_local)" and b2: "\<not> fst (pload_unchanged ex_zotero)"
    by (simp_all add: pload_unchanged_def)
  from a b1 b2 have b: "providers ex_loaded \<noteq> [] \<and>
      (\<forall>p\<in>set (providers ex_loaded). \<not> fst (pload_unchanged p))"
    by simp
  have c: "\<exists>m'. load pload_unchanged ex_loaded = Inr m' \<and> sources m' = sources ex_loaded \<and>
      fuse m' = fuse ex_loaded"
    using load_unchanged_keeps_sources_and_index[of ex_loaded pload_unchanged] b by blast
  have d: "load pload_changed (new_BibliographyManager ex_local ex_zotero) = Inr ex_loaded"
    by (rule load_ex_loaded)
  have e: "sources ex_loaded \<noteq> sources (new_BibliographyManager ex_local ex_zotero)"
    by (simp add: ex_loaded_def mk_loaded_def new_BibliographyManager_def)
  have f: "\<exists>p\<in>set (providers (new_BibliographyManager ex_local ex_zotero)). fst (pload_changed p)"
    using load_unchanged_keeps_sources_and_index
      [of "new_BibliographyManager ex_local ex_zotero" pload_changed] d e by blast
  from a b1 b2 c d e f show ?thesis by blast
qed

text \<open>
  Claim C6. A load of a manager that has providers returns. After a load, \<open>isWritable\<close>
  holds when the providers list no bibliography file; when they list some, \<open>isWritable\<close>
  holds exactly when one of the listed files is writable.
\<close>

theorem load_writable_law:
  "(providers m \<noteq> [] \<longrightarrow> (\<exists>m'. load pload m = Inr m')) \<and>
   (\<forall>m'. load pload m = Inr m' \<longrightarrow>
      (bibliographyFiles m' = [] \<longrightarrow> isWritable m') \<and>
      (bibliographyFiles m' \<noteq> [] \<longrightarrow>
         isWritable m' = (\<exists>f\<in>set (bibliographyFiles m'). BibliographyFile.writable f)))"
proof (intro conjI impI allI)
  assume "providers m \<noteq> []"
  then show "\<exists>m'. load pload m = Inr m'" by (rule load_total)
next
  fix m'
  assume "load pload m = Inr m'" "bibliographyFiles m' = []"
  then show "isWritable m'"
    by (simp add: isWritable_def load_Inr_writable shouldAllowWrites_def)
next
  fix m'
  assume "load pload m = Inr m'" "bibliographyFiles m' \<noteq> []"
  then show "isWritable m' = (\<exists>f\<in>set (bibliographyFiles m'). BibliographyFile.writable f)"
    by (simp add: isWritable_def load_Inr_writable shouldAllowWrites_def filter_empty_conv)
qed

theorem load_writable_law_witness:
  "providers (new_BibliographyManager ex_local ex_zotero) \<noteq> [] \<and>
   load pload_changed (new_BibliographyManager ex_local ex_zotero) = Inr ex_loaded \<and>
   bibliographyFiles ex_loaded = [] \<and> isWritable ex_loaded \<and>
   load pload_changed (new_BibliographyManager ex_local_readonly ex_zotero) = Inr ex_readonly \<and>
   bibliographyFiles ex_readonly = [ex_readonly_file] \<and>
   \<not> BibliographyFile.writable ex_readonly_file \<and> \<not> isWritable ex_readonly"
proof -
  have a: "providers (new_BibliographyManager ex_local ex_zotero) \<noteq> []"
    by (simp add: new_BibliographyManager_def)
  have b: "bibliographyFiles ex_loaded = []"
    by (simp add: bibliographyFiles_def ex_loaded_def mk_loaded_def ex_local_def ex_zotero_def
        mk_provider_def)
  have c: "isWritable ex_loaded"
    using load_writable_law[of "new_BibliographyManager ex_local ex_zotero" pload_changed]
      load_ex_loaded b by blast
  have d: "bibliographyFiles ex_readonly = [ex_readonly_file]"
    by (simp add: bibliographyFiles_def ex_readonly_def mk_loaded_def ex_local_readonly_def
        ex_zotero_def mk_provider_def)
  have e: "\<not> BibliographyFile.writable ex_readonly_file"
    by (simp add: ex_readonly_file_def)
  have "isWritable ex_readonly =
          (\<exists>f\<in>set (bibliographyFiles ex_readonly). BibliographyFile.writable f)"
    using load_writable_law[of "new_BibliographyManager ex_local_readonly ex_zotero" pload_changed]
      load_ex_readonly d by simp
  with d e have f: "\<not> isWritable ex_readonly" by simp
  from a b c d e f load_ex_loaded load_ex_readonly show ?thesis by blast
qed

text \<open>
  Claim C7, as amended. With an empty or undefined query, \<open>search\<close> returns the list of
  the corresponding list method: for a non-empty provider key \<open>p\<close> and a non-empty
  collection key \<open>c\<close> it is \<open>sourcesForProviderCollection p c\<close>, for a non-empty provider
  key alone it is \<open>sourcesForProvider p\<close>, and with no key it is \<open>allSources\<close>. An empty
  string given as a key counts as no key: with the empty collection key the result is
  that of the provider key alone, and with the empty provider key it is \<open>allSources\<close>,
  whatever the collection key.
\<close>

theorem search_empty_query_identity:
  assumes "truthy query = None"
  shows "(p \<noteq> [] \<and> c \<noteq> [] \<longrightarrow>
            search kLocal rank m query (Some p) (Some c) =
              sourcesForProviderCollection kLocal m p c) \<and>
         (p \<noteq> [] \<longrightarrow>
            search kLocal rank m query (Some p) None = sourcesForProvider kLocal m p \<and>
            search kLocal rank m query (Some p) (Some []) = sourcesForProvider kLocal m p) \<and>
         search kLocal rank m query None ckey = allSources kLocal m \<and>
         search kLocal rank m query (Some []) ckey = allSources kLocal m"
  using assms by (simp add: search_def)

theorem search_empty_query_identity_witness:
  "truthy None = None \<and> truthy (Some []) = None \<and> ''zotero'' \<noteq> [] \<and> ''c9'' \<noteq> [] \<and>
   search ''bibliography'' rank_all ex_coll None (Some ''zotero'') (Some ''c9'') =
     [mk_source_in ''c1'' ''zotero'' [''c9'']] \<and>
   sourcesForProviderCollection ''bibliography'' ex_coll ''zotero'' ''c9'' =
     [mk_source_in ''c1'' ''zotero'' [''c9'']] \<and>
   search ''bibliography'' rank_all ex_coll (Some []) (Some ''zotero'') None =
     [mk_source_in ''c1'' ''zotero'' [''c9''], mk_source ''d1'' ''zotero''] \<and>
   search ''bibliography'' rank_all ex_coll None (Some ''zotero'') (Some []) =
     [mk_source_in ''c1'' ''zotero'' [''c9''], mk_source ''d1'' ''zotero''] \<and>
   search ''bibliography'' rank_all ex_coll None None None =
     [mk_source ''a1'' ''bibliography'', mk_source ''b1'' ''bibliography'',
      mk_source_in ''c1'' ''zotero'' [''c9''], mk_source ''d1'' ''zotero''] \<and>
   search ''bibliography'' rank_all ex_coll None (Some []) (Some ''c9'') =
     [mk_source ''a1'' ''bibliography'', mk_source ''b1'' ''bibliography'',
      mk_source_in ''c1'' ''zotero'' [''c9''], mk_source ''d1'' ''zotero'']"
proof -
  have n: "truthy None = None" by simp
  have e: "truthy (Some []) = None" by simp
  have p: "''zotero'' \<noteq> []" by simp
  have c: "''c9'' \<noteq> []" by simp
  note a = search_empty_query_identity
    [OF n, where kLocal = "''bibliography''" and rank = rank_all and m = ex_coll
       and p = "''zotero''" and c = "''c9''"]
  note b = search_empty_query_identity
    [OF e, where kLocal = "''bibliography''" and rank = rank_all and m = ex_coll
       and p = "''zotero''" and c = "''c9''"]
  have 1: "search ''bibliography'' rank_all ex_coll None (Some ''zotero'') (Some ''c9'') =
     [mk_source_in ''c1'' ''zotero'' [''c9'']]"
    using a p c by (simp add: sourcesForProviderCollection_ex_coll_c9)
  have 2: "search ''bibliography'' rank_all ex_coll (Some []) (Some ''zotero'') None =
     [mk_source_in ''c1'' ''zotero'' [''c9''], mk_source ''d1'' ''zotero'']"
    using b p by (simp add: sourcesForProvider_ex_coll_zotero)
  have 3: "search ''bibliography'' rank_all ex_coll None (Some ''zotero'') (Some []) =
     [mk_source_in ''c1'' ''zotero'' [''c9''], mk_source ''d1'' ''zotero'']"
    using a p by (simp add: sourcesForProvider_ex_coll_zotero)
  have 4: "search ''bibliography'' rank_all ex_coll None None None =
     [mk_source ''a1'' ''bibliography'', mk_source ''b1'' ''bibliography'',
      mk_source_in ''c1'' ''zotero'' [''c9''], mk_source ''d1'' ''zotero'']"
    using a[where ckey = None] by (simp add: allSources_ex_coll)
  have 5: "search ''bibliography'' rank_all ex_coll None (Some []) (Some ''c9'') =
     [mk_source ''a1'' ''bibliography'', mk_source ''b1'' ''bibliography'',
      mk_source_in ''c1'' ''zotero'' [''c9''], mk_source ''d1'' ''zotero'']"
    using a[where ckey = "Some ''c9''"] by (simp add: allSources_ex_coll)
  from n e p c 1 2 3 4 5 sourcesForProviderCollection_ex_coll_c9 show ?thesis by blast
qed

text \<open>
  The claim C7 as stated, for every provider key and collection key, fails at the empty
  string. With the collection key \<open>''''\<close> the search returns the two sources of the
  Zotero provider where \<open>sourcesForProviderCollection\<close> returns none, and with the
  provider key \<open>''''\<close> it returns all four sources where \<open>sourcesForProvider\<close> returns none.
\<close>

theorem search_empty_key_counterexample:
  "search ''bibliography'' rank_all ex_coll None (Some ''zotero'') (Some []) =
     [mk_source_in ''c1'' ''zotero'' [''c9''], mk_source ''d1'' ''zotero''] \<and>
   sourcesForProviderCollection ''bibliography'' ex_coll ''zotero'' [] = [] \<and>
   search ''bibliography'' rank_all ex_coll None (Some ''zotero'') (Some []) \<noteq>
     sourcesForProviderCollection ''bibliography'' ex_coll ''zotero'' [] \<and>
   search ''bibliography'' rank_all ex_coll None (Some []) None =
     [mk_source ''a1'' ''bibliography'', mk_source ''b1'' ''bibliography'',
      mk_source_in ''c1'' ''zotero'' [''c9''], mk_source ''d1'' ''zotero''] \<and>
   sourcesForProvider ''bibliography'' ex_coll [] = [] \<and>
   search ''bibliography'' rank_all ex_coll None (Some []) None \<noteq>
     sourcesForProvider ''bibliography'' ex_coll []"
proof -
  have a: "search ''bibliography'' rank_all ex_coll None (Some ''zotero'') (Some []) =
     [mk_source_in ''c1'' ''zotero'' [''c9''], mk_source ''d1'' ''zotero'']"
    by (simp add: search_def sourcesForProvider_ex_coll_zotero)
  have b: "search ''bibliography'' rank_all ex_coll None (Some []) None =
     [mk_source ''a1'' ''bibliography'', mk_source ''b1'' ''bibliography'',
      mk_source_in ''c1'' ''zotero'' [''c9''], mk_source ''d1'' ''zotero'']"
    by (simp add: search_def allSources_ex_coll)
  have c: "search ''bibliography'' rank_all ex_coll None (Some ''zotero'') (Some []) \<noteq>
     sourcesForProviderCollection ''bibliography'' ex_coll ''zotero'' []"
    unfolding a sourcesForProviderCollection_ex_coll_empty_key by simp
  have d: "search ''bibliography'' rank_all ex_coll None (Some []) None \<noteq>
     sourcesForProvider ''bibliography'' ex_coll []"
    unfolding b sourcesForProvider_ex_coll_empty_key by simp
  from a b c d sourcesForProviderCollection_ex_coll_empty_key
    sourcesForProvider_ex_coll_empty_key
  show ?thesis by blast
qed

text \<open>
  Claim C8. The constructor leaves the source list and the index undefined, and on every
  manager in that state \<open>allSources\<close>, \<open>sourcesForProvider\<close>,
  \<open>sourcesForProviderCollection\<close>, \<open>searchAllSources\<close> and \<open>search\<close> return the empty
  list, whatever their arguments. The functions of the model are total and have no error
  result, so no call fails.
\<close>

theorem unloaded_queries_empty:
  "sources (new_BibliographyManager l z) = None \<and> fuse (new_BibliographyManager l z) = None \<and>
   (sources m = None \<and> fuse m = None \<longrightarrow>
      allSources kLocal m = [] \<and>
      sourcesForProvider kLocal m p = [] \<and>
      sourcesForProviderCollection kLocal m p c = [] \<and>
      searchAllSources kLocal rank m q limit = [] \<and>
      search kLocal rank m query pkey ckey = [])"
proof (intro conjI impI)
  show "sources (new_BibliographyManager l z) = None"
    by (simp add: new_BibliographyManager_def)
  show "fuse (new_BibliographyManager l z) = None"
    by (simp add: new_BibliographyManager_def)
next
  assume u: "sources m = None \<and> fuse m = None"
  have a: "allSources kLocal m = []"
    using u by (simp add: allSources_def uniqby_Nil)
  have b: "sourcesForProvider kLocal m p' = []" for p'
    by (simp add: sourcesForProvider_def a uniqby_Nil)
  have c: "sourcesForProviderCollection kLocal m p' c' = []" for p' c'
    by (simp add: sourcesForProviderCollection_def b uniqby_Nil)
  have d: "searchAllSources kLocal rank m q' limit' = []" for q' limit'
    using u by (simp add: searchAllSources_def)
  have e: "search kLocal rank m query pkey ckey = []"
    by (simp add: search_def searchProviderCollection_def searchProvider_def a b c d
        split: option.splits)
  show "allSources kLocal m = []" by (rule a)
  show "sourcesForProvider kLocal m p = []" by (rule b)
  show "sourcesForProviderCollection kLocal m p c = []" by (rule c)
  show "searchAllSources kLocal rank m q limit = []" by (rule d)
  show "search kLocal rank m query pkey ckey = []" by (rule e)
qed

theorem unloaded_queries_empty_witness:
  "sources (new_BibliographyManager ex_local ex_zotero) = None \<and>
   fuse (new_BibliographyManager ex_local ex_zotero) = None \<and>
   allSources ''bibliography'' (new_BibliographyManager ex_local ex_zotero) = [] \<and>
   search ''bibliography'' rank_all (new_BibliographyManager ex_local ex_zotero)
     (Some ''smith'') None None = [] \<and>
   search ''bibliography'' rank_all (new_BibliographyManager ex_local ex_zotero)
     (Some ''smith'') (Some ''zotero'') (Some ''c9'') = []"
  using
    unloaded_queries_empty
      [where l = ex_local and z = ex_zotero and kLocal = "''bibliography''" and rank = rank_all
         and m = "new_BibliographyManager ex_local ex_zotero"
         and query = "Some ''smith''" and pkey = None and ckey = None]
    unloaded_queries_empty
      [where l = ex_local and z = ex_zotero and kLocal = "''bibliography''" and rank = rank_all
         and m = "new_BibliographyManager ex_local ex_zotero"
         and query = "Some ''smith''" and pkey = "Some ''zotero''" and ckey = "Some ''c9''"]
  by blast

text \<open>
  Claim C9. When no provider key is given, \<open>search\<close> ignores the collection key: with a
  non-empty query it is the global fuzzy search with the limit 1000, and with an empty or
  undefined query it is \<open>allSources\<close>.
\<close>

theorem search_collection_without_provider:
  "(q \<noteq> [] \<longrightarrow>
      search kLocal rank m (Some q) None c = searchAllSources kLocal rank m q 1000) \<and>
   search kLocal rank m (Some []) None c = allSources kLocal m \<and>
   search kLocal rank m None None c = allSources kLocal m"
  by (simp add: search_def split: option.splits)

theorem search_collection_without_provider_witness:
  "''a1'' \<noteq> [] \<and>
   search ''bibliography'' rank_all ex_loaded (Some ''a1'') None (Some ''c9'') =
     searchAllSources ''bibliography'' rank_all ex_loaded ''a1'' 1000 \<and>
   search ''bibliography'' rank_all ex_loaded None None (Some ''c9'') =
     [mk_source ''a1'' ''bibliography'', mk_source ''b1'' ''bibliography'',
      mk_source ''c1'' ''zotero'']"
proof -
  have n: "''a1'' \<noteq> []" by simp
  from n search_collection_without_provider
    [of "''a1''" "''bibliography''" rank_all ex_loaded "Some ''c9''"]
  show ?thesis by (simp add: allSources_ex_loaded)
qed

text \<open>
  Claim C10. \<open>localProviders\<close> returns the whole provider list of the manager: for a
  fresh manager the local provider followed by the Zotero provider, the same list whatever
  the source list, the index and the writable flag are, and after a load every registered
  provider as that load left it, in the same order.
\<close>

theorem localProviders_returns_all_providers:
  "localProviders (new_BibliographyManager l z) = [l, z] \<and>
   localProviders (m\<lparr>fuse := f, sources := s, writable := w\<rparr>) = providers m \<and>
   (\<forall>m'. load pload m = Inr m' \<longrightarrow>
      localProviders m' = map (\<lambda>p. snd (pload p)) (providers m))"
  by (simp add: localProviders_def new_BibliographyManager_def load_Inr_providers)

theorem localProviders_returns_all_providers_witness:
  "localProviders (new_BibliographyManager ex_local ex_zotero) = [ex_local, ex_zotero] \<and>
   load pload_changed (new_BibliographyManager ex_local_readonly ex_zotero) = Inr ex_readonly \<and>
   \<not> isWritable ex_readonly \<and>
   localProviders ex_readonly = [ex_local_readonly, ex_zotero] \<and>
   map key (localProviders ex_readonly) = [''bibliography'', ''zotero'']"
proof -
  note t = localProviders_returns_all_providers
    [where l = ex_local and z = ex_zotero and pload = pload_changed
       and m = "new_BibliographyManager ex_local_readonly ex_zotero"]
  have a: "localProviders (new_BibliographyManager ex_local ex_zotero) = [ex_local, ex_zotero]"
    using t by blast
  have "localProviders ex_readonly =
          map (\<lambda>p. snd (pload_changed p))
            (providers (new_BibliographyManager ex_local_readonly ex_zotero))"
    using t load_ex_readonly by blast
  then have b: "localProviders ex_readonly = [ex_local_readonly, ex_zotero]"
    by (simp add: new_BibliographyManager_def pload_changed_def)
  have c: "\<not> isWritable ex_readonly"
    by (simp add: isWritable_def ex_readonly_def mk_loaded_def)
  have d: "map key (localProviders ex_readonly) = [''bibliography'', ''zotero'']"
    by (simp add: b ex_local_readonly_def ex_zotero_def mk_provider_def)
  from a b c d load_ex_readonly show ?thesis by blast
qed

end
